theory Spec2Isabelle
  imports Main
begin

section \<open>JavaScript values\<close>

text \<open>
  The module \<^verbatim>\<open>src/utils/cursor-pagination.js\<close> works on plain JavaScript data:
  objects used as records, arrays, strings, numbers and \<^verbatim>\<open>Date\<close> objects.
  \<^item> A string is the list of the bytes of its UTF-8 text; its length and its indices count
    UTF-16 code units (\<open>utf16_units\<close>), as JavaScript does.
  \<^item> A number is an integer (\<open>JNum\<close>); a number that JSON text writes with a fraction or
    an exponent is kept as its literal (\<open>JNumLit\<close>), its floating-point value is not
    computed.
  \<^item> A \<^verbatim>\<open>Date\<close> holds its time value in milliseconds since the epoch, \<open>None\<close> for
    an invalid date (time value NaN).
  \<^item> An object is the list of its own enumerable data properties in the order in which
    JavaScript enumerates them. Its prototype is \<^verbatim>\<open>Object.prototype\<close>.
  \<^item> \<open>JBuiltin p k\<close> is what the built-in prototype \<open>p\<close> holds under the name \<open>k\<close>: a
    built-in function, or under \<^verbatim>\<open>__proto__\<close> the prototype object \<open>p\<close> itself. A property
    read that finds no own property goes on to the prototype and gives such a value.
    These values are opaque: they have no own enumerable properties, and the model does
    not say what their own properties hold.
\<close>

datatype proto = ObjectProto | ArrayProto | StringProto | NumberProto | BooleanProto | DateProto

datatype jsval =
    JUndefined
  | JNull
  | JBool bool
  | JNum int
  | JNumLit string
  | JStr string
  | JDate "int option"
  | JArr "jsval list"
  | JObj "(string \<times> jsval) list"
  | JBuiltin proto string

datatype js_exn =
    TypeError
  | SyntaxError
  | Error string
  | BadRequestError string

subsection \<open>Decimal numerals\<close>

definition is_digit :: "char \<Rightarrow> bool" where
  "is_digit c = (48 \<le> (of_char c :: nat) \<and> (of_char c :: nat) \<le> 57)"

definition digit_val :: "char \<Rightarrow> nat" where
  "digit_val c = (of_char c :: nat) - 48"

definition digit_char :: "nat \<Rightarrow> char" where
  "digit_char d = char_of (48 + d)"

fun digits_of :: "nat \<Rightarrow> string" where
  "digits_of n = (if n < 10 then [digit_char n] else digits_of (n div 10) @ [digit_char (n mod 10)])"

definition nat_of_digits :: "string \<Rightarrow> nat" where
  "nat_of_digits ds = foldl (\<lambda>a c. 10 * a + digit_val c) 0 ds"

text \<open>
  An array index is the canonical decimal numeral of an integer below \<open>2^32 - 1\<close>:
  no sign, no leading zero.
\<close>

definition array_index :: "string \<Rightarrow> nat option" where
  "array_index k =
     (if k \<noteq> [] \<and> list_all is_digit k \<and> (if hd k = CHR ''0'' then length k = 1 else True)
         \<and> nat_of_digits k < 4294967295
      then Some (nat_of_digits k) else None)"

subsection \<open>Strings\<close>

definition utf8_encode :: "nat \<Rightarrow> string" where
  "utf8_encode cp =
     (if cp < 128 then [char_of cp]
      else if cp < 2048 then [char_of (192 + cp div 64), char_of (128 + cp mod 64)]
      else if cp < 65536 then
        [char_of (224 + cp div 4096), char_of (128 + (cp div 64) mod 64), char_of (128 + cp mod 64)]
      else [char_of (240 + cp div 262144), char_of (128 + (cp div 4096) mod 64),
            char_of (128 + (cp div 64) mod 64), char_of (128 + cp mod 64)])"

definition is_continuation :: "char \<Rightarrow> bool" where
  "is_continuation c = (128 \<le> (of_char c :: nat) \<and> (of_char c :: nat) < 192)"

definition continuation_bits :: "char \<Rightarrow> nat" where
  "continuation_bits c = (of_char c :: nat) - 128"

text \<open>
  The UTF-16 code units of a string: one unit for a character of one, two or three bytes
  (a lone surrogate, which JSON text can write with an escape, is kept in three bytes), a
  surrogate pair for a character of four bytes. A byte that starts no well-formed
  sequence counts as U+FFFD.
\<close>

fun utf16_units :: "string \<Rightarrow> nat list" where
  "utf16_units [] = []"
| "utf16_units (c # cs) =
     (let n = (of_char c :: nat)
      in if n < 128 then n # utf16_units cs
         else if 192 \<le> n \<and> n < 224 then
           (case cs of
              c1 # r \<Rightarrow>
                if is_continuation c1
                then ((n - 192) * 64 + continuation_bits c1) # utf16_units r
                else 65533 # utf16_units cs
            | [] \<Rightarrow> [65533])
         else if 224 \<le> n \<and> n < 240 then
           (case cs of
              c1 # c2 # r \<Rightarrow>
                if is_continuation c1 \<and> is_continuation c2
                then ((n - 224) * 4096 + continuation_bits c1 * 64 + continuation_bits c2) # utf16_units r
                else 65533 # utf16_units cs
            | _ \<Rightarrow> 65533 # utf16_units cs)
         else if 240 \<le> n \<and> n < 248 then
           (case cs of
              c1 # c2 # c3 # r \<Rightarrow>
                if is_continuation c1 \<and> is_continuation c2 \<and> is_continuation c3
                then (let cp = (n - 240) * 262144 + continuation_bits c1 * 4096
                                 + continuation_bits c2 * 64 + continuation_bits c3
                      in (55296 + (cp - 65536) div 1024) # (56320 + (cp - 65536) mod 1024) # utf16_units r)
                else 65533 # utf16_units cs
            | _ \<Rightarrow> 65533 # utf16_units cs)
         else 65533 # utf16_units cs)"

subsection \<open>Prototypes\<close>

text \<open>
  The string-named properties of the built-in prototypes (ECMAScript 2024 with its
  Annex B). \<^verbatim>\<open>__proto__\<close> is treated apart: reading it gives the prototype object.
\<close>

fun proto_names :: "proto \<Rightarrow> string list" where
  "proto_names ObjectProto =
    [''constructor'', ''__defineGetter__'', ''__defineSetter__'', ''hasOwnProperty'',
     ''__lookupGetter__'', ''__lookupSetter__'', ''isPrototypeOf'', ''propertyIsEnumerable'',
     ''toString'', ''valueOf'', ''toLocaleString'']"
| "proto_names ArrayProto =
    [''constructor'', ''at'', ''concat'', ''copyWithin'', ''entries'', ''every'', ''fill'',
     ''filter'', ''find'', ''findIndex'', ''findLast'', ''findLastIndex'', ''flat'',
     ''flatMap'', ''forEach'', ''includes'', ''indexOf'', ''join'', ''keys'', ''lastIndexOf'',
     ''map'', ''pop'', ''push'', ''reduce'', ''reduceRight'', ''reverse'', ''shift'',
     ''slice'', ''some'', ''sort'', ''splice'', ''toLocaleString'', ''toReversed'',
     ''toSorted'', ''toSpliced'', ''toString'', ''unshift'', ''values'', ''with'']"
| "proto_names StringProto =
    [''constructor'', ''anchor'', ''at'', ''big'', ''blink'', ''bold'', ''charAt'',
     ''charCodeAt'', ''codePointAt'', ''concat'', ''endsWith'', ''fixed'', ''fontcolor'',
     ''fontsize'', ''includes'', ''indexOf'', ''isWellFormed'', ''italics'', ''lastIndexOf'',
     ''link'', ''localeCompare'', ''match'', ''matchAll'', ''normalize'', ''padEnd'',
     ''padStart'', ''repeat'', ''replace'', ''replaceAll'', ''search'', ''slice'', ''small'',
     ''split'', ''strike'', ''sub'', ''substr'', ''substring'', ''sup'', ''startsWith'',
     ''toLocaleLowerCase'', ''toLocaleUpperCase'', ''toLowerCase'', ''toString'',
     ''toUpperCase'', ''toWellFormed'', ''trim'', ''trimEnd'', ''trimLeft'', ''trimRight'',
     ''trimStart'', ''valueOf'']"
| "proto_names NumberProto =
    [''constructor'', ''toExponential'', ''toFixed'', ''toLocaleString'', ''toPrecision'',
     ''toString'', ''valueOf'']"
| "proto_names BooleanProto =
    [''constructor'', ''toString'', ''valueOf'']"
| "proto_names DateProto =
    [''constructor'', ''getDate'', ''getDay'', ''getFullYear'', ''getHours'',
     ''getMilliseconds'', ''getMinutes'', ''getMonth'', ''getSeconds'', ''getTime'',
     ''getTimezoneOffset'', ''getUTCDate'', ''getUTCDay'', ''getUTCFullYear'', ''getUTCHours'',
     ''getUTCMilliseconds'', ''getUTCMinutes'', ''getUTCMonth'', ''getUTCSeconds'',
     ''getYear'', ''setDate'', ''setFullYear'', ''setHours'', ''setMilliseconds'',
     ''setMinutes'', ''setMonth'', ''setSeconds'', ''setTime'', ''setUTCDate'',
     ''setUTCFullYear'', ''setUTCHours'', ''setUTCMilliseconds'', ''setUTCMinutes'',
     ''setUTCMonth'', ''setUTCSeconds'', ''setYear'', ''toDateString'', ''toGMTString'',
     ''toISOString'', ''toJSON'', ''toLocaleDateString'', ''toLocaleString'',
     ''toLocaleTimeString'', ''toString'', ''toTimeString'', ''toUTCString'', ''valueOf'']"

text \<open>
  \<open>inherited p k\<close>: what a property read gives for the name \<open>k\<close> when the receiver has no
  own property \<open>k\<close> and its prototype is \<open>p\<close>; every prototype but
  \<^verbatim>\<open>Object.prototype\<close> has \<^verbatim>\<open>Object.prototype\<close> as its own prototype.
\<close>

definition inherited :: "proto \<Rightarrow> string \<Rightarrow> jsval" where
  "inherited p k =
     (if k = ''__proto__'' then JBuiltin p ''__proto__''
      else if k \<in> set (proto_names p) then JBuiltin p k
      else if k \<in> set (proto_names ObjectProto) then JBuiltin ObjectProto k
      else JUndefined)"

subsection \<open>Objects\<close>

text \<open>
  Own property keys are enumerated with the array indices first, in ascending numeric
  order, then the other string keys in the order of their creation.
  \<open>obj_set\<close> is the definition of a data property on an ordinary object: an existing
  key keeps its place and takes the new value, a new key is placed by that rule.
\<close>

fun obj_insert_index :: "nat \<Rightarrow> string \<Rightarrow> jsval \<Rightarrow> (string \<times> jsval) list \<Rightarrow> (string \<times> jsval) list" where
  "obj_insert_index i k v [] = [(k, v)]"
| "obj_insert_index i k v ((k', v') # kvs) =
     (case array_index k' of
        None \<Rightarrow> (k, v) # (k', v') # kvs
      | Some j \<Rightarrow> if i < j then (k, v) # (k', v') # kvs
                  else (k', v') # obj_insert_index i k v kvs)"

definition obj_set :: "(string \<times> jsval) list \<Rightarrow> string \<Rightarrow> jsval \<Rightarrow> (string \<times> jsval) list" where
  "obj_set kvs k v =
     (if k \<in> set (map fst kvs) then map (\<lambda>(k', v'). if k' = k then (k', v) else (k', v')) kvs
      else (case array_index k of
              None \<Rightarrow> kvs @ [(k, v)]
            | Some i \<Rightarrow> obj_insert_index i k v kvs))"

text \<open>An object literal \<^verbatim>\<open>{[k1]: v1, [k2]: v2, ...}\<close> defines its properties from left to right.\<close>

definition obj_lit :: "(string \<times> jsval) list \<Rightarrow> jsval" where
  "obj_lit kvs = JObj (foldl (\<lambda>acc (k, v). obj_set acc k v) [] kvs)"

text \<open>
  \<^verbatim>\<open>x[k]\<close>: reading a property of \<^verbatim>\<open>undefined\<close> or \<^verbatim>\<open>null\<close> throws a TypeError.
  Otherwise the own properties are looked at first (for an array and a string their
  \<^verbatim>\<open>length\<close> and their indices), then the prototype chain; a name found nowhere reads as
  \<^verbatim>\<open>undefined\<close>. A read from a built-in value gives an opaque value again.
\<close>

definition get_prop :: "jsval \<Rightarrow> string \<Rightarrow> js_exn + jsval" where
  "get_prop x k =
     (case x of
        JUndefined \<Rightarrow> Inl TypeError
      | JNull \<Rightarrow> Inl TypeError
      | JObj kvs \<Rightarrow> Inr (case map_of kvs k of None \<Rightarrow> inherited ObjectProto k | Some v \<Rightarrow> v)
      | JArr xs \<Rightarrow>
          Inr (if k = ''length'' then JNum (int (length xs))
               else (case array_index k of
                       None \<Rightarrow> inherited ArrayProto k
                     | Some i \<Rightarrow> if i < length xs then xs ! i else inherited ArrayProto k))
      | JStr s \<Rightarrow>
          Inr (if k = ''length'' then JNum (int (length (utf16_units s)))
               else (case array_index k of
                       None \<Rightarrow> inherited StringProto k
                     | Some i \<Rightarrow>
                         if i < length (utf16_units s) then JStr (utf8_encode (utf16_units s ! i))
                         else inherited StringProto k))
      | JBool b \<Rightarrow> Inr (inherited BooleanProto k)
      | JNum n \<Rightarrow> Inr (inherited NumberProto k)
      | JNumLit l \<Rightarrow> Inr (inherited NumberProto k)
      | JDate t \<Rightarrow> Inr (inherited DateProto k)
      | JBuiltin p n \<Rightarrow> Inr (JBuiltin p (n @ CHR ''.'' # k)))"

text \<open>\<^verbatim>\<open>Object.keys(x)\<close> and \<^verbatim>\<open>Object.values(x)\<close>: a TypeError on \<^verbatim>\<open>undefined\<close> and \<^verbatim>\<open>null\<close>,
  the own enumerable properties otherwise (none for a number, a boolean, a Date, a
  built-in function or a prototype object).\<close>

definition Object_keys :: "jsval \<Rightarrow> js_exn + string list" where
  "Object_keys x =
     (case x of
        JUndefined \<Rightarrow> Inl TypeError
      | JNull \<Rightarrow> Inl TypeError
      | JObj kvs \<Rightarrow> Inr (map fst kvs)
      | JArr xs \<Rightarrow> Inr (map digits_of [0 ..< length xs])
      | JStr s \<Rightarrow> Inr (map digits_of [0 ..< length (utf16_units s)])
      | _ \<Rightarrow> Inr [])"

definition Object_values :: "jsval \<Rightarrow> js_exn + jsval list" where
  "Object_values x =
     (case x of
        JUndefined \<Rightarrow> Inl TypeError
      | JNull \<Rightarrow> Inl TypeError
      | JObj kvs \<Rightarrow> Inr (map snd kvs)
      | JArr xs \<Rightarrow> Inr xs
      | JStr s \<Rightarrow> Inr (map (\<lambda>u. JStr (utf8_encode u)) (utf16_units s))
      | _ \<Rightarrow> Inr [])"

text \<open>\<^verbatim>\<open>xs[0]\<close> on an array: \<^verbatim>\<open>undefined\<close> when the array is empty.\<close>

definition first_elem :: "jsval list \<Rightarrow> jsval" where
  "first_elem xs = (case xs of [] \<Rightarrow> JUndefined | x # _ \<Rightarrow> x)"

section \<open>Built-in codecs\<close>

subsection \<open>Base64\<close>

definition b64_char :: "nat \<Rightarrow> char" where
  "b64_char n =
     (if n < 26 then char_of (65 + n)
      else if n < 52 then char_of (71 + n)
      else if n < 62 then char_of (n - 4)
      else if n = 62 then CHR ''+'' else CHR ''/'')"

fun b64_encode :: "string \<Rightarrow> string" where
  "b64_encode [] = []"
| "b64_encode [a] =
     (let x = (of_char a :: nat)
      in [b64_char (x div 4), b64_char ((x mod 4) * 16), CHR ''='', CHR ''=''])"
| "b64_encode [a, b] =
     (let x = (of_char a :: nat); y = (of_char b :: nat)
      in [b64_char (x div 4), b64_char ((x mod 4) * 16 + y div 16),
          b64_char ((y mod 16) * 4), CHR ''=''])"
| "b64_encode (a # b # c # rest) =
     (let x = (of_char a :: nat); y = (of_char b :: nat); z = (of_char c :: nat)
      in [b64_char (x div 4), b64_char ((x mod 4) * 16 + y div 16),
          b64_char ((y mod 16) * 4 + z div 64), b64_char (z mod 64)] @ b64_encode rest)"

definition unbase64 :: "char \<Rightarrow> nat option" where
  "unbase64 c =
     (let n = (of_char c :: nat)
      in if 65 \<le> n \<and> n \<le> 90 then Some (n - 65)
         else if 97 \<le> n \<and> n \<le> 122 then Some (n - 71)
         else if 48 \<le> n \<and> n \<le> 57 then Some (n + 4)
         else if n = 43 \<or> n = 45 then Some 62
         else if n = 47 \<or> n = 95 then Some 63
         else None)"

fun b64_sextets :: "string \<Rightarrow> nat list" where
  "b64_sextets [] = []"
| "b64_sextets (c # cs) =
     (if c = CHR ''='' then []
      else (case unbase64 c of None \<Rightarrow> b64_sextets cs | Some v \<Rightarrow> v # b64_sextets cs))"

fun b64_bytes :: "nat list \<Rightarrow> string" where
  "b64_bytes (a # b # c # d # rest) =
     [char_of (a * 4 + b div 16), char_of ((b mod 16) * 16 + c div 4), char_of ((c mod 4) * 64 + d)]
       @ b64_bytes rest"
| "b64_bytes [a, b, c] = [char_of (a * 4 + b div 16), char_of ((b mod 16) * 16 + c div 4)]"
| "b64_bytes [a, b] = [char_of (a * 4 + b div 16)]"
| "b64_bytes _ = []"

definition b64_decode :: "string \<Rightarrow> string" where
  "b64_decode s = b64_bytes (b64_sextets s)"



subsection \<open>Dates\<close>

definition civil_from_days :: "int \<Rightarrow> int \<times> int \<times> int" where
  "civil_from_days z =
     (let z' = z + 719468;
          era = z' div 146097;
          doe = z' mod 146097;
          n100 = min 3 (doe div 36524);
          r1 = doe - 36524 * n100;
          n4 = r1 div 1461;
          r2 = r1 mod 1461;
          n1 = min 3 (r2 div 365);
          doy = r2 - 365 * n1;
          yoe = 100 * n100 + 4 * n4 + n1;
          mp = (5 * doy + 2) div 153;
          d = doy - (153 * mp + 2) div 5 + 1;
          m = (if mp < 10 then mp + 3 else mp - 9)
      in (yoe + era * 400 + (if m \<le> 2 then 1 else 0), m, d))"

definition days_from_civil :: "int \<Rightarrow> int \<Rightarrow> int \<Rightarrow> int" where
  "days_from_civil y m d =
     (let y' = (if m \<le> 2 then y - 1 else y);
          era = y' div 400;
          yoe = y' mod 400;
          mp = (if m > 2 then m - 3 else m + 9);
          doy = (153 * mp + 2) div 5 + d - 1;
          doe = yoe * 365 + yoe div 4 - yoe div 100 + doy
      in era * 146097 + doe - 719468)"

fun pad_digits :: "nat \<Rightarrow> nat \<Rightarrow> string" where
  "pad_digits 0 n = []"
| "pad_digits (Suc w) n = pad_digits w (n div 10) @ [digit_char (n mod 10)]"

definition iso_year :: "int \<Rightarrow> string" where
  "iso_year y =
     (if 0 \<le> y \<and> y \<le> 9999 then pad_digits 4 (nat y)
      else (if y < 0 then ''-'' else ''+'') @ pad_digits 6 (nat \<bar>y\<bar>))"

definition toISOString :: "int \<Rightarrow> string" where
  "toISOString t =
     (let days = t div 86400000;
          ms = nat (t mod 86400000);
          (y, m, d) = civil_from_days days
      in iso_year y @ ''-'' @ pad_digits 2 (nat m) @ ''-'' @ pad_digits 2 (nat d) @ ''T''
         @ pad_digits 2 (ms div 3600000) @ '':'' @ pad_digits 2 ((ms div 60000) mod 60) @ '':''
         @ pad_digits 2 ((ms div 1000) mod 60) @ ''.'' @ pad_digits 3 (ms mod 1000) @ ''Z'')"

subsection \<open>JSON text\<close>

definition hex_char :: "nat \<Rightarrow> char" where
  "hex_char d = (if d < 10 then char_of (48 + d) else char_of (87 + d))"

definition hex_val :: "char \<Rightarrow> nat option" where
  "hex_val c =
     (let n = (of_char c :: nat)
      in if 48 \<le> n \<and> n \<le> 57 then Some (n - 48)
         else if 97 \<le> n \<and> n \<le> 102 then Some (n - 87)
         else if 65 \<le> n \<and> n \<le> 70 then Some (n - 55)
         else None)"

definition json_escape_char :: "char \<Rightarrow> string" where
  "json_escape_char c =
     (let n = (of_char c :: nat)
      in if c = CHR 0x22 then [CHR 0x5C, CHR 0x22]
         else if c = CHR 0x5C then [CHR 0x5C, CHR 0x5C]
         else if n = 8 then [CHR 0x5C, CHR ''b'']
         else if n = 12 then [CHR 0x5C, CHR ''f'']
         else if n = 10 then [CHR 0x5C, CHR ''n'']
         else if n = 13 then [CHR 0x5C, CHR ''r'']
         else if n = 9 then [CHR 0x5C, CHR ''t'']
         else if n < 32 then [CHR 0x5C, CHR ''u'', CHR ''0'', CHR ''0'', hex_char (n div 16), hex_char (n mod 16)]
         else [c])"

definition json_quote :: "string \<Rightarrow> string" where
  "json_quote s = CHR 0x22 # concat (map json_escape_char s) @ [CHR 0x22]"

fun join_commas :: "string list \<Rightarrow> string" where
  "join_commas [] = []"
| "join_commas [x] = x"
| "join_commas (x # y # ys) = x @ CHR '','' # join_commas (y # ys)"

text \<open>
  \<^verbatim>\<open>JSON.stringify\<close> leaves out a property whose value is \<^verbatim>\<open>undefined\<close> or a function and
  writes \<^verbatim>\<open>null\<close> for such an element of an array. \<open>ser\<close> is the text of a value as an
  array element or property value. (For the prototype object of dates
  \<^verbatim>\<open>JSON.stringify\<close> throws; the model writes \<^verbatim>\<open>null\<close> there.)
\<close>

fun json_omitted :: "jsval \<Rightarrow> bool" where
  "json_omitted JUndefined = True"
| "json_omitted (JBuiltin p n) = (n \<noteq> ''__proto__'')"
| "json_omitted _ = False"

fun ser :: "jsval \<Rightarrow> string" where
  "ser JUndefined = ''null''"
| "ser JNull = ''null''"
| "ser (JBool b) = (if b then ''true'' else ''false'')"
| "ser (JNum n) = (if n < 0 then CHR ''-'' # digits_of (nat (- n)) else digits_of (nat n))"
| "ser (JNumLit l) = l"
| "ser (JStr s) = json_quote s"
| "ser (JDate None) = ''null''"
| "ser (JDate (Some t)) = json_quote (toISOString t)"
| "ser (JArr xs) = CHR ''['' # join_commas (map ser xs) @ '']''"
| "ser (JObj kvs) =
     CHR ''{'' # join_commas (map (\<lambda>kv. json_quote (fst kv) @ CHR '':'' # ser (snd kv))
                               (filter (\<lambda>kv. \<not> json_omitted (snd kv)) kvs)) @ ''}''"
| "ser (JBuiltin p n) =
     (if n = ''__proto__'' then
        (case p of
           ObjectProto \<Rightarrow> ''{}''
         | ArrayProto \<Rightarrow> ''[]''
         | StringProto \<Rightarrow> json_quote []
         | NumberProto \<Rightarrow> ''0''
         | BooleanProto \<Rightarrow> ''false''
         | DateProto \<Rightarrow> ''null'')
      else ''null'')"

definition JSON_stringify :: "jsval \<Rightarrow> string option" where
  "JSON_stringify v = (if json_omitted v then None else Some (ser v))"

definition is_ws :: "char \<Rightarrow> bool" where
  "is_ws c = (c = CHR 0x20 \<or> c = CHR 0x09 \<or> c = CHR 0x0A \<or> c = CHR 0x0D)"

definition skip_ws :: "string \<Rightarrow> string" where
  "skip_ws cs = dropWhile is_ws cs"

definition unescape :: "char \<Rightarrow> char option" where
  "unescape e =
     (if e = CHR 0x22 \<or> e = CHR 0x5C \<or> e = CHR ''/'' then Some e
      else if e = CHR ''b'' then Some (CHR 0x08)
      else if e = CHR ''f'' then Some (CHR 0x0C)
      else if e = CHR ''n'' then Some (CHR 0x0A)
      else if e = CHR ''r'' then Some (CHR 0x0D)
      else if e = CHR ''t'' then Some (CHR 0x09)
      else None)"

definition hex4 :: "string \<Rightarrow> nat option" where
  "hex4 cs =
     (case cs of
        a # b # c # d # _ \<Rightarrow>
          (case (hex_val a, hex_val b, hex_val c, hex_val d) of
             (Some w, Some x, Some y, Some z) \<Rightarrow> Some (((w * 16 + x) * 16 + y) * 16 + z)
           | _ \<Rightarrow> None)
      | _ \<Rightarrow> None)"

text \<open>A \<^verbatim>\<open>\uXXXX\<close> escape names a UTF-16 code unit; a high surrogate directly followed by
  the escape of a low surrogate names one code point.\<close>

definition low_surrogate_escape :: "string \<Rightarrow> nat option" where
  "low_surrogate_escape r =
     (case r of
        b # u # r' \<Rightarrow>
          if b = CHR 0x5C \<and> u = CHR ''u'' then
            (case hex4 r' of
               None \<Rightarrow> None
             | Some m \<Rightarrow> if 56320 \<le> m \<and> m < 57344 then Some m else None)
          else None
      | _ \<Rightarrow> None)"

fun parse_chars :: "string \<Rightarrow> (string \<times> string) option" where
  "parse_chars [] = None"
| "parse_chars (c # cs) =
     (if c = CHR 0x22 then Some ([], cs)
      else if (of_char c :: nat) < 32 then None
      else if c = CHR 0x5C then
        (case cs of
           [] \<Rightarrow> None
         | e # cs' \<Rightarrow>
             if e = CHR ''u'' then
               (case hex4 cs' of
                  None \<Rightarrow> None
                | Some n \<Rightarrow>
                    (case (if 55296 \<le> n \<and> n < 56320 then low_surrogate_escape (drop 4 cs') else None) of
                       Some m \<Rightarrow>
                         map_option (\<lambda>(s, r). (utf8_encode (65536 + (n - 55296) * 1024 + (m - 56320)) @ s, r))
                           (parse_chars (drop 10 cs'))
                     | None \<Rightarrow>
                         map_option (\<lambda>(s, r). (utf8_encode n @ s, r)) (parse_chars (drop 4 cs'))))
             else
               (case unescape e of
                  None \<Rightarrow> None
                | Some ch \<Rightarrow> map_option (\<lambda>(s, r). (ch # s, r)) (parse_chars cs')))
      else map_option (\<lambda>(s, r). (c # s, r)) (parse_chars cs))"

definition parse_frac :: "string \<Rightarrow> (string \<times> string) option" where
  "parse_frac r =
     (case r of
        [] \<Rightarrow> Some ([], [])
      | c # r' \<Rightarrow>
          if c = CHR ''.'' then
            (if takeWhile is_digit r' = [] then None
             else Some (c # takeWhile is_digit r', dropWhile is_digit r'))
          else Some ([], r))"

definition parse_exp :: "string \<Rightarrow> (string \<times> string) option" where
  "parse_exp r =
     (case r of
        [] \<Rightarrow> Some ([], [])
      | c # r' \<Rightarrow>
          if c = CHR ''e'' \<or> c = CHR ''E'' then
            (let sg = (if r' \<noteq> [] \<and> (hd r' = CHR ''+'' \<or> hd r' = CHR ''-'') then [hd r'] else []);
                 r'' = drop (length sg) r'
             in if takeWhile is_digit r'' = [] then None
                else Some (c # sg @ takeWhile is_digit r'', dropWhile is_digit r''))
          else Some ([], r))"

definition parse_number :: "string \<Rightarrow> (jsval \<times> string) option" where
  "parse_number cs =
     (let neg = (cs \<noteq> [] \<and> hd cs = CHR ''-'');
          r0 = (if neg then tl cs else cs);
          ip = takeWhile is_digit r0;
          r1 = dropWhile is_digit r0
      in if ip = [] \<or> (hd ip = CHR ''0'' \<and> length ip > 1) then None
         else (case parse_frac r1 of
                 None \<Rightarrow> None
               | Some (fr, r2) \<Rightarrow>
                   (case parse_exp r2 of
                      None \<Rightarrow> None
                    | Some (ex, r3) \<Rightarrow>
                        if fr = [] \<and> ex = []
                        then Some (JNum (if neg then - int (nat_of_digits ip) else int (nat_of_digits ip)), r3)
                        else Some (JNumLit ((if neg then ''-'' else []) @ ip @ fr @ ex), r3))))"

lemma length_skip_ws [simp]: "length (skip_ws cs) \<le> length cs"
  by (simp add: skip_ws_def length_dropWhile_le)

lemma parse_chars_shorter: "parse_chars cs = Some (s, r) \<Longrightarrow> length r < length cs"
  by (induction cs arbitrary: s r rule: parse_chars.induct)
     (fastforce split: if_splits list.splits option.splits)+

lemma skip_ws_Cons_shorter: "skip_ws cs = c # r \<Longrightarrow> length r < length cs"
  using length_skip_ws [of cs] by simp

function parse_value :: "string \<Rightarrow> (jsval \<times> string) option"
  and parse_elems :: "string \<Rightarrow> (jsval list \<times> string) option"
  and parse_members :: "string \<Rightarrow> ((string \<times> jsval) list \<times> string) option"
where
  "parse_value cs =
     (case skip_ws cs of
        [] \<Rightarrow> None
      | c # r \<Rightarrow>
          if c = CHR ''{'' then
            (case skip_ws r of
               [] \<Rightarrow> None
             | d # r' \<Rightarrow>
                 if d = CHR ''}'' then Some (JObj [], r')
                 else map_option (\<lambda>(kvs, r''). (obj_lit kvs, r'')) (parse_members r))
          else if c = CHR ''['' then
            (case skip_ws r of
               [] \<Rightarrow> None
             | d # r' \<Rightarrow>
                 if d = CHR '']'' then Some (JArr [], r')
                 else map_option (\<lambda>(vs, r''). (JArr vs, r'')) (parse_elems r))
          else if c = CHR 0x22 then map_option (\<lambda>(s, r'). (JStr s, r')) (parse_chars r)
          else if take 4 (c # r) = ''true'' then Some (JBool True, drop 4 (c # r))
          else if take 5 (c # r) = ''false'' then Some (JBool False, drop 5 (c # r))
          else if take 4 (c # r) = ''null'' then Some (JNull, drop 4 (c # r))
          else parse_number (c # r))"
| "parse_elems cs =
     (case parse_value cs of
        None \<Rightarrow> None
      | Some (v, r) \<Rightarrow>
          (case skip_ws r of
             [] \<Rightarrow> None
           | d # r' \<Rightarrow>
               if d = CHR '']'' then Some ([v], r')
               else if d = CHR '','' \<and> length r' < length cs
               then map_option (\<lambda>(vs, r''). (v # vs, r'')) (parse_elems r')
               else None))"
| "parse_members cs =
     (case skip_ws cs of
        [] \<Rightarrow> None
      | c # r \<Rightarrow>
          if c = CHR 0x22 then
            (case parse_chars r of
               None \<Rightarrow> None
             | Some (k, r1) \<Rightarrow>
                 (case skip_ws r1 of
                    [] \<Rightarrow> None
                  | c1 # r2 \<Rightarrow>
                      if c1 = CHR '':'' then
                        (case parse_value r2 of
                           None \<Rightarrow> None
                         | Some (v, r3) \<Rightarrow>
                             (case skip_ws r3 of
                                [] \<Rightarrow> None
                              | d # r4 \<Rightarrow>
                                  if d = CHR ''}'' then Some ([(k, v)], r4)
                                  else if d = CHR '','' \<and> length r4 < length cs
                                  then map_option (\<lambda>(kvs, r5). ((k, v) # kvs, r5)) (parse_members r4)
                                  else None))
                      else None))
          else None)"
  by pat_completeness auto

termination
  apply (relation "measure (\<lambda>x. case x of Inl cs \<Rightarrow> 2 * length cs + 1
                                | Inr (Inl cs) \<Rightarrow> 2 * length cs + 2
                                | Inr (Inr cs) \<Rightarrow> 2 * length cs + 2)")
       apply (auto dest!: skip_ws_Cons_shorter parse_chars_shorter)
  done

definition JSON_parse :: "string \<Rightarrow> js_exn + jsval" where
  "JSON_parse s =
     (case parse_value s of
        None \<Rightarrow> Inl SyntaxError
      | Some (v, r) \<Rightarrow> if skip_ws r = [] then Inr v else Inl SyntaxError)"

definition digits_val :: "string \<Rightarrow> int option" where
  "digits_val ds = (if ds \<noteq> [] \<and> list_all is_digit ds then Some (int (nat_of_digits ds)) else None)"

definition iso_field :: "string \<Rightarrow> nat \<Rightarrow> nat \<Rightarrow> int option" where
  "iso_field r i n = digits_val (take n (drop i r))"

definition iso_year_parse :: "string \<Rightarrow> int option" where
  "iso_year_parse ys =
     (case ys of
        [] \<Rightarrow> None
      | c # ds \<Rightarrow>
          if c = CHR ''+'' then digits_val ds
          else if c = CHR ''-'' then
            (case digits_val ds of None \<Rightarrow> None | Some y \<Rightarrow> if y = 0 then None else Some (- y))
          else digits_val ys)"

definition iso_utc_parse :: "string \<Rightarrow> int option" where
  "iso_utc_parse s =
     (let yl = (if s \<noteq> [] \<and> (hd s = CHR ''+'' \<or> hd s = CHR ''-'') then 7 else 4);
          r = drop yl s
      in if length r \<noteq> 20 \<or> [r ! 0, r ! 3, r ! 6, r ! 9, r ! 12, r ! 15, r ! 19] \<noteq> ''--T::.Z'' then None
         else
           (case iso_year_parse (take yl s) of None \<Rightarrow> None | Some y \<Rightarrow>
           (case iso_field r 1 2 of None \<Rightarrow> None | Some mo \<Rightarrow>
           (case iso_field r 4 2 of None \<Rightarrow> None | Some d \<Rightarrow>
           (case iso_field r 7 2 of None \<Rightarrow> None | Some h \<Rightarrow>
           (case iso_field r 10 2 of None \<Rightarrow> None | Some mi \<Rightarrow>
           (case iso_field r 13 2 of None \<Rightarrow> None | Some sec \<Rightarrow>
           (case iso_field r 16 3 of None \<Rightarrow> None | Some ms \<Rightarrow>
              if civil_from_days (days_from_civil y mo d) = (y, mo, d)
                 \<and> h \<le> 23 \<and> mi \<le> 59 \<and> sec \<le> 59
              then (let t = (((days_from_civil y mo d * 24 + h) * 60 + mi) * 60 + sec) * 1000 + ms
                    in if \<bar>t\<bar> \<le> 8640000000000000 then Some t else None)
              else None))))))))"

definition Date_parse :: "(string \<Rightarrow> int option) \<Rightarrow> string \<Rightarrow> int option" where
  "Date_parse hostDateParse s =
     (case iso_utc_parse s of Some t \<Rightarrow> Some t | None \<Rightarrow> hostDateParse s)"

definition new_Date :: "(string \<Rightarrow> int option) \<Rightarrow> string \<Rightarrow> jsval" where
  "new_Date hostDateParse s = JDate (Date_parse hostDateParse s)"

definition no_host_formats :: "string \<Rightarrow> int option" where
  "no_host_formats s = None"

subsection \<open>Truthiness and typeof\<close>

definition numlit_zero :: "string \<Rightarrow> bool" where
  "numlit_zero l =
     list_all (\<lambda>c. if is_digit c then c = CHR ''0'' else True) (takeWhile (\<lambda>c. c \<noteq> CHR ''e'' \<and> c \<noteq> CHR ''E'') l)"

fun truthy :: "jsval \<Rightarrow> bool" where
  "truthy JUndefined = False"
| "truthy JNull = False"
| "truthy (JBool b) = b"
| "truthy (JNum n) = (n \<noteq> 0)"
| "truthy (JNumLit l) = (\<not> numlit_zero l)"
| "truthy (JStr s) = (s \<noteq> [])"
| "truthy (JDate t) = True"
| "truthy (JArr xs) = True"
| "truthy (JObj kvs) = True"
| "truthy (JBuiltin p n) = True"

fun typeof :: "jsval \<Rightarrow> string" where
  "typeof JUndefined = ''undefined''"
| "typeof JNull = ''object''"
| "typeof (JBool b) = ''boolean''"
| "typeof (JNum n) = ''number''"
| "typeof (JNumLit l) = ''number''"
| "typeof (JStr s) = ''string''"
| "typeof (JDate t) = ''object''"
| "typeof (JArr xs) = ''object''"
| "typeof (JObj kvs) = ''object''"
| "typeof (JBuiltin p n) = (if n = ''__proto__'' then ''object'' else ''function'')"

fun Array_isArray :: "jsval \<Rightarrow> bool" where
  "Array_isArray (JArr xs) = True"
| "Array_isArray (JBuiltin p n) = (p = ArrayProto \<and> n = ''__proto__'')"
| "Array_isArray _ = False"

text \<open>\<^verbatim>\<open>x[k] = v\<close> on an object; the module assigns only to \<^verbatim>\<open>parsed.data\<close>, an object
  or an array that JSON text produced.\<close>

definition set_prop :: "jsval \<Rightarrow> string \<Rightarrow> jsval \<Rightarrow> jsval" where
  "set_prop x k v = (case x of JObj kvs \<Rightarrow> JObj (obj_set kvs k v) | _ \<Rightarrow> x)"

section \<open>Token codec\<close>

datatype cursor = Absent | Null | Token string

definition createContinuationToken :: "jsval \<Rightarrow> string list \<Rightarrow> cursor" where
  "createContinuationToken data sortFields =
     (if \<not> truthy data \<or> length sortFields = 0 then Null
      else (let tokenPayload = obj_lit [(''data'', data), (''sort'', JArr (map JStr sortFields))];
                jsonString = ser tokenPayload
            in Token (b64_encode jsonString)))"

definition invalid_cursor_message :: string where
  "invalid_cursor_message =
     [CHR 0xEC, CHR 0x9C, CHR 0xA0, CHR 0xED, CHR 0x9A, CHR 0xA8, CHR 0xED, CHR 0x95, CHR 0x98,
      CHR 0xEC, CHR 0xA7, CHR 0x80, CHR 0x20, CHR 0xEC, CHR 0x95, CHR 0x8A, CHR 0xEC, CHR 0x9D,
      CHR 0x80, CHR 0x20, CHR 0xEC, CHR 0xBB, CHR 0xA4, CHR 0xEC, CHR 0x84, CHR 0x9C, CHR 0x28,
      CHR 0x63, CHR 0x75, CHR 0x72, CHR 0x73, CHR 0x6F, CHR 0x72, CHR 0x29, CHR 0x20, CHR 0xEA,
      CHR 0xB0, CHR 0x92, CHR 0xEC, CHR 0x9E, CHR 0x85, CHR 0xEB, CHR 0x8B, CHR 0x88, CHR 0xEB,
      CHR 0x8B, CHR 0xA4, CHR 0x2E]"

definition restore_created_at :: "(string \<Rightarrow> int option) \<Rightarrow> jsval \<Rightarrow> js_exn + jsval" where
  "restore_created_at hostDateParse parsed =
     (case get_prop parsed ''data'' of
        Inl e \<Rightarrow> Inl e
      | Inr data \<Rightarrow>
          (case get_prop data ''created_at'' of
             Inl e \<Rightarrow> Inl e
           | Inr created_at \<Rightarrow>
               if truthy created_at \<and> typeof created_at = ''string''
               then (case created_at of
                       JStr s \<Rightarrow> Inr (set_prop parsed ''data'' (set_prop data ''created_at'' (new_Date hostDateParse s)))
                     | _ \<Rightarrow> Inr parsed)
               else Inr parsed))"

definition parse_try_block :: "(string \<Rightarrow> int option) \<Rightarrow> string \<Rightarrow> js_exn + jsval" where
  "parse_try_block hostDateParse token =
     (let jsonString = b64_decode token
      in case JSON_parse jsonString of
           Inl e \<Rightarrow> Inl e
         | Inr parsed \<Rightarrow>
             if \<not> truthy parsed then Inl (Error ''Invalid structure'')
             else (case get_prop parsed ''data'' of
                     Inl e \<Rightarrow> Inl e
                   | Inr data \<Rightarrow>
                       if typeof data \<noteq> ''object'' then Inl (Error ''Invalid structure'')
                       else (case get_prop parsed ''sort'' of
                               Inl e \<Rightarrow> Inl e
                             | Inr srt \<Rightarrow>
                                 if \<not> Array_isArray srt then Inl (Error ''Invalid structure'')
                                 else restore_created_at hostDateParse parsed)))"

definition parseContinuationToken :: "(string \<Rightarrow> int option) \<Rightarrow> cursor \<Rightarrow> js_exn + jsval" where
  "parseContinuationToken hostDateParse token =
     (case token of
        Absent \<Rightarrow> Inr JNull
      | Null \<Rightarrow> Inr JNull
      | Token t \<Rightarrow>
          if t = [] then Inr JNull
          else (case parse_try_block hostDateParse t of
                  Inl e \<Rightarrow> Inl (BadRequestError invalid_cursor_message)
                | Inr parsed \<Rightarrow> Inr parsed))"

section \<open>Sort extraction\<close>

text \<open>\<^verbatim>\<open>orderBy.map(item => Object.keys(item)[0])\<close>; the first item that is
  \<^verbatim>\<open>undefined\<close> or \<^verbatim>\<open>null\<close> ends the call with its TypeError.\<close>

fun orderByToSort :: "jsval list \<Rightarrow> js_exn + jsval list" where
  "orderByToSort [] = Inr []"
| "orderByToSort (item # rest) =
     (case Object_keys item of
        Inl e \<Rightarrow> Inl e
      | Inr ks \<Rightarrow>
          (case orderByToSort rest of
             Inl e \<Rightarrow> Inl e
           | Inr r \<Rightarrow> Inr ((case ks of [] \<Rightarrow> JUndefined | k # _ \<Rightarrow> JStr k) # r)))"

section \<open>Range predicate builder\<close>

definition buildCursorWhere :: "jsval \<Rightarrow> string list \<Rightarrow> js_exn + jsval" where
  "buildCursorWhere cursorData sortFields =
     (case sortFields of
        [] \<Rightarrow> Inr (JObj [])
      | primaryField # more \<Rightarrow>
          (case get_prop cursorData primaryField of
             Inl e \<Rightarrow> Inl e
           | Inr pv \<Rightarrow>
               (case Object_values pv of
                  Inl e \<Rightarrow> Inl e
                | Inr vals \<Rightarrow>
                    (let primaryDirection = (if first_elem vals = JStr ''desc'' then ''lt'' else ''gt'');
                         whereClause = obj_lit [(primaryField, obj_lit [(primaryDirection, pv)])]
                     in case more of
                          [] \<Rightarrow> Inr whereClause
                        | secondaryField # _ \<Rightarrow>
                            (case get_prop cursorData secondaryField of
                               Inl e \<Rightarrow> Inl e
                             | Inr sv \<Rightarrow>
                                 (let secondaryDirection = primaryDirection
                                  in Inr (obj_lit [(''OR'', JArr
                                       [whereClause,
                                        obj_lit [(primaryField, pv),
                                                 (secondaryField, obj_lit [(secondaryDirection, sv)])]])])))))))"

section \<open>Base64 round trip\<close>

lemma of_char_b64_char:
  "n < 64 \<Longrightarrow> (of_char (b64_char n) :: nat) =
     (if n < 26 then 65 + n else if n < 52 then 71 + n else if n < 62 then n - 4
      else if n = 62 then 43 else 47)"
  by (simp add: b64_char_def)

lemma unbase64_b64_char: "n < 64 \<Longrightarrow> unbase64 (b64_char n) = Some n"
proof -
  assume n: "n < 64"
  consider "n < 26" | "26 \<le> n \<and> n < 52" | "52 \<le> n \<and> n < 62" | "n = 62" | "n = 63"
    using n by linarith
  then show ?thesis
  proof cases
    case 1 then show ?thesis by (auto simp: unbase64_def of_char_b64_char Let_def)
  next
    case 2 then show ?thesis by (auto simp: unbase64_def of_char_b64_char Let_def)
  next
    case 3 then show ?thesis by (auto simp: unbase64_def of_char_b64_char Let_def)
  next
    case 4 then show ?thesis by (auto simp: unbase64_def of_char_b64_char Let_def)
  next
    case 5 then show ?thesis by (auto simp: unbase64_def of_char_b64_char Let_def)
  qed
qed

lemma b64_char_not_pad: "n < 64 \<Longrightarrow> b64_char n \<noteq> CHR ''=''"
proof
  assume "n < 64" "b64_char n = CHR ''=''"
  then have "(if n < 26 then 65 + n else if n < 52 then 71 + n else if n < 62 then n - 4
      else if n = 62 then 43 else 47) = (61::nat)"
    using of_char_b64_char [of n] by simp
  then show False by (simp split: if_splits)
qed

lemma sextets_cons: "n < 64 \<Longrightarrow> b64_sextets (b64_char n # cs) = n # b64_sextets cs"
  using unbase64_b64_char [of n] b64_char_not_pad [of n] by simp

lemma of_char_lt: "(of_char (c::char) :: nat) < 256"
  by simp

lemma sextets_pad: "b64_sextets (CHR ''='' # cs) = []"
  by simp

lemma byte1: "x < 256 \<Longrightarrow> y < 256 \<Longrightarrow> (x div 4) * 4 + ((x mod 4) * 16 + y div 16) div 16 = (x::nat)"
  by (simp add: div_add1_eq)

lemma byte3: "z < 256 \<Longrightarrow> (((y mod 16) * 4 + z div 64) mod 4) * 64 + z mod 64 = (z::nat)"
proof -
  assume "z < 256"
  then have "z div 64 < 4" by simp
  then have "((y mod 16) * 4 + z div 64) mod 4 = z div 64" by simp
  then show ?thesis by simp
qed

lemma byte2: "y < 256 \<Longrightarrow> z < 256 \<Longrightarrow> (((x mod 4) * 16 + y div 16) mod 16) * 16 + ((y mod 16) * 4 + z div 64) div 4 = (y::nat)"
proof -
  assume "y < 256" "z < 256"
  then have a: "y div 16 < 16" "z div 64 < 4" by simp_all
  then have "((x mod 4) * 16 + y div 16) mod 16 = y div 16" by simp
  moreover have "((y mod 16) * 4 + z div 64) div 4 = y mod 16" using a by simp
  ultimately show ?thesis by simp
qed

lemma sext1: "x < 256 \<Longrightarrow> x div 4 < (64::nat)"
  by simp

lemma sext2: "y < 256 \<Longrightarrow> (x mod 4) * 16 + y div 16 < (64::nat)"
proof -
  assume "y < 256"
  then have "y div 16 < 16" by simp
  moreover have "x mod 4 < 4" by simp
  ultimately show ?thesis by linarith
qed

lemma sext3: "z < 256 \<Longrightarrow> (y mod 16) * 4 + z div 64 < (64::nat)"
proof -
  assume "z < 256"
  then have "z div 64 < 4" by simp
  moreover have "y mod 16 < 16" by simp
  ultimately show ?thesis by linarith
qed

lemma sextets_group:
  assumes "x < 256" "y < 256" "z < 256"
  shows "b64_sextets (b64_char (x div 4) # b64_char ((x mod 4) * 16 + y div 16)
           # b64_char ((y mod 16) * 4 + z div 64) # b64_char (z mod 64) # cs)
         = x div 4 # ((x mod 4) * 16 + y div 16) # ((y mod 16) * 4 + z div 64) # (z mod 64) # b64_sextets cs"
  using sext1 [OF assms(1)] sext2 [OF assms(2), of x] sext3 [OF assms(3), of y]
  by (simp add: sextets_cons del: b64_sextets.simps)

lemma b64_roundtrip: "b64_decode (b64_encode bs) = bs"
  unfolding b64_decode_def
proof (induction bs rule: b64_encode.induct)
  case 1 show ?case by simp
next
  case (2 a)
  have a: "(of_char a :: nat) < 256" by simp
  have "b64_sextets (b64_encode [a]) = [of_char a div 4, (of_char a mod 4) * 16]"
    using sext1 [OF a] sext2 [of 0 "of_char a"]
    by (simp add: Let_def sextets_cons sextets_pad del: b64_sextets.simps(2))
  then show ?case using byte1 [of "of_char a" 0] by simp
next
  case (3 a b)
  have a: "(of_char a :: nat) < 256" "(of_char b :: nat) < 256" by simp_all
  have "b64_sextets (b64_encode [a, b]) = [of_char a div 4, (of_char a mod 4) * 16 + of_char b div 16, (of_char b mod 16) * 4]"
    using sext1 [OF a(1)] sext2 [OF a(2), of "of_char a"] sext3 [of 0 "of_char b"]
    by (simp add: Let_def sextets_cons sextets_pad del: b64_sextets.simps(2))
  then show ?case using byte1 [of "of_char a" "of_char b"] byte2 [of "of_char b" 0 "of_char a"] by simp
next
  case (4 a b c rest)
  have a: "(of_char a :: nat) < 256" "(of_char b :: nat) < 256" "(of_char c :: nat) < 256" by simp_all
  have "b64_sextets (b64_encode (a # b # c # rest)) =
      of_char a div 4 # ((of_char a mod 4) * 16 + of_char b div 16) # ((of_char b mod 16) * 4 + of_char c div 64)
        # (of_char c mod 64) # b64_sextets (b64_encode rest)"
    using sextets_group [OF a] by (simp add: Let_def del: b64_sextets.simps)
  then show ?case
    using 4 byte1 [of "of_char a" "of_char b"] byte2 [of "of_char b" "of_char c" "of_char a"] byte3 [of "of_char c" "of_char b"]
    by simp
qed

section \<open>Properties of the range predicate builder\<close>

definition nullish :: "jsval \<Rightarrow> bool" where
  "nullish v = (v = JUndefined \<or> v = JNull)"

fun is_builtin :: "jsval \<Rightarrow> bool" where
  "is_builtin (JBuiltin p n) = True"
| "is_builtin _ = False"

lemma inherited_cases: "inherited p k = JUndefined \<or> (\<exists>q n. inherited p k = JBuiltin q n)"
  by (simp add: inherited_def)

lemma inherited_not_data [simp]:
  "inherited p k \<noteq> JStr s" "inherited p k \<noteq> JObj kvs" "inherited p k \<noteq> JArr xs" "inherited p k \<noteq> JNull"
  using inherited_cases [of p k] by auto

lemma Object_values_Inl: "Object_values v = Inl e \<longleftrightarrow> nullish v \<and> e = TypeError"
  by (cases v) (auto simp: Object_values_def nullish_def)

lemma get_prop_Inl: "get_prop x k = Inl e \<longleftrightarrow> nullish x \<and> e = TypeError"
  by (cases x) (auto simp: get_prop_def nullish_def)

lemma get_prop_twice: "get_prop x k = Inr v \<Longrightarrow> \<exists>w. get_prop x k' = Inr w"
  by (cases x) (auto simp: get_prop_def)

text \<open>
  C2. For the marker \<^verbatim>\<open>{created_at: {desc: T}}\<close> and the sort \<^verbatim>\<open>["created_at"]\<close> the builder
  returns \<^verbatim>\<open>{created_at: {gt: {desc: T}}}\<close>: the operator is greater-than although the
  entry says \<^verbatim>\<open>desc\<close>, because \<^verbatim>\<open>Object.values(entry)[0]\<close> is \<open>T\<close> and not the key
  \<^verbatim>\<open>desc\<close>, and the value compared against is the whole entry. For \<^verbatim>\<open>{id: {asc: 5}}\<close> it
  returns \<^verbatim>\<open>{id: {gt: {asc: 5}}}\<close>.
\<close>

theorem buildCursorWhere_single_field_examples:
  "buildCursorWhere (JObj [(''created_at'', JObj [(''desc'', JDate (Some t))])]) [''created_at'']
      = Inr (JObj [(''created_at'', JObj [(''gt'', JObj [(''desc'', JDate (Some t))])])])
   \<and> buildCursorWhere (JObj [(''id'', JObj [(''asc'', JNum 5)])]) [''id'']
      = Inr (JObj [(''id'', JObj [(''gt'', JObj [(''asc'', JNum 5)])])])"
  by (simp add: buildCursorWhere_def Let_def get_prop_def Object_values_def first_elem_def obj_lit_def obj_set_def array_index_def is_digit_def)

text \<open>
  C3. For the marker \<^verbatim>\<open>{created_at: {desc: T}, id: {desc: 7}}\<close> and the sort
  \<^verbatim>\<open>["created_at", "id"]\<close> the builder returns the OR of
  \<^verbatim>\<open>{created_at: {gt: {desc: T}}}\<close> and \<^verbatim>\<open>{created_at: {desc: T}, id: {gt: {desc: 7}}}\<close>:
  the two branches are the ones the claim describes, the operator and the compared values
  are not.
\<close>

theorem buildCursorWhere_composite_example:
  "buildCursorWhere (JObj [(''created_at'', JObj [(''desc'', JDate (Some t))]), (''id'', JObj [(''desc'', JNum 7)])])
       [''created_at'', ''id'']
      = Inr (JObj [(''OR'', JArr
          [JObj [(''created_at'', JObj [(''gt'', JObj [(''desc'', JDate (Some t))])])],
           JObj [(''created_at'', JObj [(''desc'', JDate (Some t))]),
                 (''id'', JObj [(''gt'', JObj [(''desc'', JNum 7)])])]])])"
  by (simp add: buildCursorWhere_def Let_def get_prop_def Object_values_def first_elem_def obj_lit_def obj_set_def array_index_def is_digit_def)

text \<open>
  C7. Whenever the builder succeeds on a sort list with at least two fields, the result is
  the OR of the primary comparison and the tie-break object, and one operator \<open>op\<close> is used
  for both fields; \<open>op\<close> is computed from the primary field's entry alone.
\<close>

theorem buildCursorWhere_secondary_direction:
  assumes "buildCursorWhere cursorData (p # s # rest) = Inr w"
  shows "\<exists>pv sv vals op.
           get_prop cursorData p = Inr pv \<and> get_prop cursorData s = Inr sv \<and> Object_values pv = Inr vals
         \<and> op = (if first_elem vals = JStr ''desc'' then ''lt'' else ''gt'')
         \<and> w = obj_lit [(''OR'', JArr [obj_lit [(p, obj_lit [(op, pv)])],
                                        obj_lit [(p, pv), (s, obj_lit [(op, sv)])]])]"
  using assms
  by (auto simp: buildCursorWhere_def Let_def split: sum.splits)

theorem buildCursorWhere_secondary_direction_witness:
  "buildCursorWhere (JObj [(''a'', JArr [JStr ''asc'', JNum 1]), (''b'', JArr [JStr ''desc'', JNum 2])]) [''a'', ''b'']
     = Inr (JObj [(''OR'', JArr
          [JObj [(''a'', JObj [(''gt'', JArr [JStr ''asc'', JNum 1])])],
           JObj [(''a'', JArr [JStr ''asc'', JNum 1]),
                 (''b'', JObj [(''gt'', JArr [JStr ''desc'', JNum 2])])]])])
   \<and> (\<exists>pv sv vals op.
           get_prop (JObj [(''a'', JArr [JStr ''asc'', JNum 1]), (''b'', JArr [JStr ''desc'', JNum 2])]) ''a'' = Inr pv
         \<and> get_prop (JObj [(''a'', JArr [JStr ''asc'', JNum 1]), (''b'', JArr [JStr ''desc'', JNum 2])]) ''b'' = Inr sv
         \<and> Object_values pv = Inr vals
         \<and> op = (if first_elem vals = JStr ''desc'' then ''lt'' else ''gt'')
         \<and> JObj [(''OR'', JArr
              [JObj [(''a'', JObj [(''gt'', JArr [JStr ''asc'', JNum 1])])],
               JObj [(''a'', JArr [JStr ''asc'', JNum 1]),
                     (''b'', JObj [(''gt'', JArr [JStr ''desc'', JNum 2])])]])]
            = obj_lit [(''OR'', JArr [obj_lit [(''a'', obj_lit [(op, pv)])],
                                        obj_lit [(''a'', pv), (''b'', obj_lit [(op, sv)])]])])"
proof -
  have e: "buildCursorWhere (JObj [(''a'', JArr [JStr ''asc'', JNum 1]), (''b'', JArr [JStr ''desc'', JNum 2])]) [''a'', ''b'']
     = Inr (JObj [(''OR'', JArr
          [JObj [(''a'', JObj [(''gt'', JArr [JStr ''asc'', JNum 1])])],
           JObj [(''a'', JArr [JStr ''asc'', JNum 1]),
                 (''b'', JObj [(''gt'', JArr [JStr ''desc'', JNum 2])])]])])"
    by (simp add: buildCursorWhere_def Let_def get_prop_def Object_values_def first_elem_def obj_lit_def obj_set_def array_index_def is_digit_def)
  show ?thesis using e buildCursorWhere_secondary_direction [OF e] by blast
qed

text \<open>
  C8. On a sort list with more than two fields the builder returns what it returns on the
  two-element prefix, an error included: the fields after the second are never read.
\<close>

theorem buildCursorWhere_two_field_truncation:
  "buildCursorWhere cursorData (p # s # rest) = buildCursorWhere cursorData [p, s]"
  by (simp add: buildCursorWhere_def Let_def split: sum.splits)

theorem buildCursorWhere_two_field_truncation_witness:
  "buildCursorWhere (JObj [(''a'', JNum 1), (''b'', JNum 2), (''c'', JStr ''desc'')]) [''a'', ''b'', ''c'']
     = buildCursorWhere (JObj [(''a'', JNum 1), (''b'', JNum 2), (''c'', JStr ''desc'')]) [''a'', ''b'']"
  using buildCursorWhere_two_field_truncation
          [of "JObj [(''a'', JNum 1), (''b'', JNum 2), (''c'', JStr ''desc'')]" "''a''" "''b''" "[''c'']"] .

text \<open>
  C10 as stated fails: the marker \<^verbatim>\<open>{id: 5}\<close> binds the primary field to a number, which is
  not an object, and the call returns \<^verbatim>\<open>{id: {gt: 5}}\<close>.
\<close>

theorem buildCursorWhere_number_entry_total:
  "buildCursorWhere (JObj [(''id'', JNum 5)]) [''id''] = Inr (JObj [(''id'', JObj [(''gt'', JNum 5)])])
   \<and> get_prop (JObj [(''id'', JNum 5)]) ''id'' = Inr (JNum 5) \<and> typeof (JNum 5) = ''number''"
  by (simp add: buildCursorWhere_def Let_def get_prop_def Object_values_def first_elem_def obj_lit_def obj_set_def array_index_def is_digit_def)

text \<open>
  C10, amended. Let the marker be a data value (not itself a built-in function or
  prototype object). On a non-empty sort list the builder returns a predicate exactly
  when reading the primary field of the marker, as an own or an inherited property, gives
  a value other than \<^verbatim>\<open>undefined\<close> and \<^verbatim>\<open>null\<close>. When the marker is \<^verbatim>\<open>undefined\<close> or
  \<^verbatim>\<open>null\<close>, or neither has nor inherits the field, or binds it to \<^verbatim>\<open>undefined\<close> or
  \<^verbatim>\<open>null\<close>, the call ends with a TypeError (not the BadRequestError of the token parser).
  A name such as \<^verbatim>\<open>constructor\<close>, which every object inherits, gives a predicate.
\<close>

theorem buildCursorWhere_total_iff:
  assumes "\<not> is_builtin cursorData"
  shows "((\<exists>w. buildCursorWhere cursorData (f # rest) = Inr w)
            \<longleftrightarrow> (\<exists>pv. get_prop cursorData f = Inr pv \<and> \<not> nullish pv))
         \<and> ((\<forall>pv. get_prop cursorData f = Inr pv \<longrightarrow> nullish pv)
            \<longrightarrow> buildCursorWhere cursorData (f # rest) = Inl TypeError)"
proof (cases "get_prop cursorData f")
  case (Inl e)
  then have "e = TypeError" using get_prop_Inl [of cursorData f e] by simp
  then show ?thesis using Inl by (simp add: buildCursorWhere_def)
next
  case (Inr pv)
  show ?thesis
  proof (cases "Object_values pv")
    case (Inl e)
    then have "nullish pv" "e = TypeError" by (simp_all add: Object_values_Inl)
    then show ?thesis using Inr Inl by (simp add: buildCursorWhere_def)
  next
    case vals: (Inr vals)
    then have nn: "\<not> nullish pv" using Object_values_Inl [of pv TypeError] by auto
    show ?thesis
    proof (cases rest)
      case Nil
      then show ?thesis using Inr vals nn by (simp add: buildCursorWhere_def Let_def)
    next
      case (Cons s more)
      obtain sv where "get_prop cursorData s = Inr sv" using get_prop_twice [OF Inr] by blast
      then show ?thesis using Inr vals nn Cons by (simp add: buildCursorWhere_def Let_def)
    qed
  qed
qed

theorem buildCursorWhere_total_iff_witness:
  "\<not> is_builtin (JObj [(''id'', JNum 5)])
   \<and> get_prop (JObj [(''id'', JNum 5)]) ''created_at'' = Inr JUndefined
   \<and> nullish JUndefined
   \<and> buildCursorWhere (JObj [(''id'', JNum 5)]) [''created_at''] = Inl TypeError
   \<and> \<not> (\<exists>w. buildCursorWhere (JObj [(''id'', JNum 5)]) [''created_at''] = Inr w)
   \<and> get_prop (JObj [(''id'', JNum 5)]) ''constructor'' = Inr (JBuiltin ObjectProto ''constructor'')
   \<and> \<not> nullish (JBuiltin ObjectProto ''constructor'')
   \<and> (\<exists>w. buildCursorWhere (JObj [(''id'', JNum 5)]) [''constructor''] = Inr w)"
proof -
  have b: "\<not> is_builtin (JObj [(''id'', JNum 5)])"
    by simp
  have h: "get_prop (JObj [(''id'', JNum 5)]) ''created_at'' = Inr JUndefined"
    by (simp add: get_prop_def inherited_def)
  have c: "get_prop (JObj [(''id'', JNum 5)]) ''constructor'' = Inr (JBuiltin ObjectProto ''constructor'')"
    by (simp add: get_prop_def inherited_def)
  have n: "nullish JUndefined" "\<not> nullish (JBuiltin ObjectProto ''constructor'')"
    by (simp_all add: nullish_def)
  have 1: "buildCursorWhere (JObj [(''id'', JNum 5)]) [''created_at''] = Inl TypeError
      \<and> \<not> (\<exists>w. buildCursorWhere (JObj [(''id'', JNum 5)]) [''created_at''] = Inr w)"
    using h n buildCursorWhere_total_iff [OF b, of "''created_at''" "[]"] by auto
  have 2: "\<exists>w. buildCursorWhere (JObj [(''id'', JNum 5)]) [''constructor''] = Inr w"
    using c n buildCursorWhere_total_iff [OF b, of "''constructor''" "[]"] by auto
  show ?thesis using b h c n 1 2 by (intro conjI) simp_all
qed

section \<open>Properties of the sort extraction\<close>

text \<open>
  C9. On a list of single-key mappings \<^verbatim>\<open>{k: d}\<close> the result is the list of the keys, in
  the same order, duplicates kept, whatever the directions \<open>d\<close> are; and
  \<^verbatim>\<open>[{created_at: "desc"}, {id: "asc"}]\<close> gives \<^verbatim>\<open>["created_at", "id"]\<close>.
\<close>

theorem orderByToSort_keys:
  "orderByToSort (map (\<lambda>(k, d). JObj [(k, d)]) orderBy) = Inr (map (\<lambda>(k, d). JStr k) orderBy)
   \<and> orderByToSort [JObj [(''created_at'', JStr ''desc'')], JObj [(''id'', JStr ''asc'')]]
       = Inr [JStr ''created_at'', JStr ''id'']"
proof
  show "orderByToSort (map (\<lambda>(k, d). JObj [(k, d)]) orderBy) = Inr (map (\<lambda>(k, d). JStr k) orderBy)"
    by (induction orderBy) (auto simp: Object_keys_def)
  show "orderByToSort [JObj [(''created_at'', JStr ''desc'')], JObj [(''id'', JStr ''asc'')]]
       = Inr [JStr ''created_at'', JStr ''id'']"
    by (simp add: Object_keys_def)
qed

theorem orderByToSort_keys_witness:
  "orderByToSort [JObj [(''id'', JStr ''asc'')], JObj [(''id'', JStr ''desc'')]] = Inr [JStr ''id'', JStr ''id'']"
  using orderByToSort_keys [of "[(''id'', JStr ''asc''), (''id'', JStr ''desc'')]"] by simp

section \<open>Properties of the token codec\<close>

text \<open>
  C5. \<^verbatim>\<open>createContinuationToken\<close> returns \<^verbatim>\<open>null\<close> when the marker is \<^verbatim>\<open>null\<close> or
  \<^verbatim>\<open>undefined\<close>, whatever the sort list, and when the sort list is empty, whatever the
  marker; \<^verbatim>\<open>parseContinuationToken\<close> returns \<^verbatim>\<open>null\<close> on \<^verbatim>\<open>undefined\<close> and on \<^verbatim>\<open>null\<close>
  and raises nothing.
\<close>

theorem no_token_on_empty_input:
  "createContinuationToken JNull sortFields = Null
   \<and> createContinuationToken JUndefined sortFields = Null
   \<and> createContinuationToken data [] = Null
   \<and> parseContinuationToken hostDateParse Absent = Inr JNull
   \<and> parseContinuationToken hostDateParse Null = Inr JNull"
  by (simp add: createContinuationToken_def parseContinuationToken_def)

theorem no_token_on_empty_input_witness:
  "createContinuationToken JNull [''id''] = Null
   \<and> createContinuationToken JUndefined [''id''] = Null
   \<and> createContinuationToken (JObj [(''id'', JNum 1)]) [] = Null
   \<and> parseContinuationToken no_host_formats Absent = Inr JNull
   \<and> parseContinuationToken no_host_formats Null = Inr JNull"
  using no_token_on_empty_input [of "[''id'']" "JObj [(''id'', JNum 1)]" no_host_formats] .

subsection \<open>Reading and writing properties\<close>

lemma map_of_obj_insert_index:
  "k \<notin> fst ` set kvs \<Longrightarrow>
     map_of (obj_insert_index i k v kvs) k' = (if k' = k then Some v else map_of kvs k')"
  by (induction kvs) (auto split: option.splits)

lemma map_of_obj_update_other:
  "k' \<noteq> k \<Longrightarrow>
     map_of (map (\<lambda>(k', v'). if k' = k then (k', v) else (k', v')) kvs) k' = map_of kvs k'"
  by (induction kvs) auto

lemma map_of_obj_update_same:
  "k \<in> fst ` set kvs \<Longrightarrow>
     map_of (map (\<lambda>(k', v'). if k' = k then (k', v) else (k', v')) kvs) k = Some v"
  by (induction kvs) auto

lemma map_of_obj_update:
  "k \<in> fst ` set kvs \<Longrightarrow>
     map_of (map (\<lambda>(k', v'). if k' = k then (k', v) else (k', v')) kvs) k'
       = (if k' = k then Some v else map_of kvs k')"
  using map_of_obj_update_other [of k' k v kvs] map_of_obj_update_same [of k kvs v] by simp

lemma map_of_obj_set: "map_of (obj_set kvs k v) k' = (if k' = k then Some v else map_of kvs k')"
proof (cases "k \<in> fst ` set kvs")
  case True
  then show ?thesis using map_of_obj_update [OF True, of v k'] by (simp add: obj_set_def)
next
  case False
  then have n: "map_of kvs k = None" by (simp add: map_of_eq_None_iff)
  show ?thesis
  proof (cases "array_index k")
    case None
    then show ?thesis using False n by (auto simp: obj_set_def map_add_def split: option.splits)
  next
    case (Some i)
    then show ?thesis using False map_of_obj_insert_index [OF False, of i v k'] by (simp add: obj_set_def)
  qed
qed

lemma get_prop_set_prop_obj:
  "get_prop (set_prop (JObj kvs) k v) k' = (if k' = k then Inr v else get_prop (JObj kvs) k')"
  by (simp add: get_prop_def set_prop_def map_of_obj_set)

lemma get_prop_created_at_string:
  assumes "get_prop data ''created_at'' = Inr (JStr s)" "typeof data = ''object''"
  shows "\<exists>kvs. data = JObj kvs"
  using assms by (cases data) (auto simp: get_prop_def array_index_def is_digit_def split: if_splits)

lemma get_prop_data_object:
  assumes "get_prop parsed ''data'' = Inr (JObj dkvs)"
  shows "(\<exists>kvs. parsed = JObj kvs) \<or> (\<exists>xs. parsed = JArr xs)"
  using assms by (cases parsed) (auto simp: get_prop_def split: if_splits option.splits)


lemma parse_try_block_Inr:
  assumes "parse_try_block h t = Inr r"
  shows "\<exists>parsed data srt. JSON_parse (b64_decode t) = Inr parsed \<and> truthy parsed
           \<and> get_prop parsed ''data'' = Inr data \<and> typeof data = ''object''
           \<and> get_prop parsed ''sort'' = Inr srt \<and> Array_isArray srt
           \<and> restore_created_at h parsed = Inr r"
  using assms
  by (auto simp: parse_try_block_def Let_def split: sum.splits if_splits)

lemma restore_created_at_Inr:
  assumes "restore_created_at h parsed = Inr r" "get_prop parsed ''data'' = Inr data"
  shows "\<exists>ca. get_prop data ''created_at'' = Inr ca
           \<and> r = (case ca of
                    JStr s \<Rightarrow> if s \<noteq> [] then set_prop parsed ''data'' (set_prop data ''created_at'' (new_Date h s))
                              else parsed
                  | _ \<Rightarrow> parsed)"
  using assms
  by (auto simp: restore_created_at_def split: sum.splits if_splits jsval.splits)

lemma restored_fields:
  assumes r: "restore_created_at h parsed = Inr r"
    and d: "get_prop parsed ''data'' = Inr data"
    and o: "typeof data = ''object''"
  shows "\<exists>data'. get_prop r ''data'' = Inr data' \<and> typeof data' = ''object'' \<and> data' \<noteq> JNull
           \<and> (\<forall>k. k \<noteq> ''created_at'' \<longrightarrow> get_prop data' k = get_prop data k)
           \<and> (\<forall>s. get_prop data ''created_at'' = Inr (JStr s) \<and> s \<noteq> []
                  \<longrightarrow> get_prop data' ''created_at'' = Inr (JDate (Date_parse h s)))
           \<and> ((\<forall>s. get_prop data ''created_at'' = Inr (JStr s) \<longrightarrow> s = []) \<longrightarrow> data' = data)
           \<and> (\<forall>k. k \<noteq> ''data'' \<longrightarrow> get_prop r k = get_prop parsed k)"
proof -
  obtain ca where ca: "get_prop data ''created_at'' = Inr ca"
    and req: "r = (case ca of
                    JStr s \<Rightarrow> if s \<noteq> [] then set_prop parsed ''data'' (set_prop data ''created_at'' (new_Date h s))
                              else parsed
                  | _ \<Rightarrow> parsed)"
    using restore_created_at_Inr [OF r d] by blast
  have nn: "data \<noteq> JNull" using ca by (auto simp: get_prop_def)
  show ?thesis
  proof (cases "\<exists>s. ca = JStr s \<and> s \<noteq> []")
    case False
    then have "r = parsed" using req by (cases ca) auto
    then show ?thesis using d o nn ca False by auto
  next
    case True
    then obtain s where s: "ca = JStr s" "s \<noteq> []" by blast
    obtain dkvs where dk: "data = JObj dkvs"
      using get_prop_created_at_string [of data s] ca s o by blast
    have "(\<exists>kvs. parsed = JObj kvs) \<or> (\<exists>xs. parsed = JArr xs)"
      using get_prop_data_object [of parsed dkvs] d dk by simp
    moreover have "\<not> (\<exists>xs. parsed = JArr xs)"
      using d dk by (auto simp: get_prop_def array_index_def is_digit_def split: if_splits)
    ultimately obtain pkvs where pk: "parsed = JObj pkvs" by blast
    have r': "r = set_prop (JObj pkvs) ''data'' (set_prop (JObj dkvs) ''created_at'' (JDate (Date_parse h s)))"
      using req s dk pk by (simp add: new_Date_def)
    let ?d' = "set_prop (JObj dkvs) ''created_at'' (JDate (Date_parse h s))"
    have 1: "get_prop r ''data'' = Inr ?d'" unfolding r' by (simp add: get_prop_set_prop_obj)
    have 2: "typeof ?d' = ''object''" "?d' \<noteq> JNull" by (simp_all add: set_prop_def)
    have 3: "\<forall>k. k \<noteq> ''created_at'' \<longrightarrow> get_prop ?d' k = get_prop data k"
      unfolding dk by (simp add: get_prop_set_prop_obj)
    have 4: "get_prop ?d' ''created_at'' = Inr (JDate (Date_parse h s))"
      by (simp add: get_prop_set_prop_obj)
    have 5: "\<forall>k. k \<noteq> ''data'' \<longrightarrow> get_prop r k = get_prop parsed k"
      unfolding r' pk by (simp add: get_prop_set_prop_obj)
    show ?thesis using 1 2 3 4 5 ca s by auto
  qed
qed


text \<open>
  C4. On a non-empty token \<^verbatim>\<open>parseContinuationToken\<close> either returns an object whose
  \<^verbatim>\<open>data\<close> is an object (\<^verbatim>\<open>typeof\<close> gives \<^verbatim>\<open>"object"\<close> and it is not \<^verbatim>\<open>null\<close>) and whose
  \<^verbatim>\<open>sort\<close> is an array, or raises \<^verbatim>\<open>BadRequestError\<close> with the fixed message; the
  SyntaxError of \<^verbatim>\<open>JSON.parse\<close>, the \<^verbatim>\<open>Error("Invalid structure")\<close> and the TypeError of
  reading \<^verbatim>\<open>created_at\<close> of \<^verbatim>\<open>null\<close> never reach the caller.
\<close>

theorem parseContinuationToken_single_error_kind:
  assumes "t \<noteq> []"
  shows "(\<exists>parsed data srt. parseContinuationToken h (Token t) = Inr parsed
            \<and> get_prop parsed ''data'' = Inr data \<and> typeof data = ''object'' \<and> data \<noteq> JNull
            \<and> get_prop parsed ''sort'' = Inr srt \<and> Array_isArray srt)
         \<or> parseContinuationToken h (Token t) = Inl (BadRequestError invalid_cursor_message)"
proof (cases "parse_try_block h t")
  case (Inl e)
  then show ?thesis using assms by (simp add: parseContinuationToken_def)
next
  case (Inr r)
  obtain parsed data srt where p: "get_prop parsed ''data'' = Inr data" "typeof data = ''object''"
      "get_prop parsed ''sort'' = Inr srt" "Array_isArray srt" "restore_created_at h parsed = Inr r"
    using parse_try_block_Inr [OF Inr] by blast
  obtain data' where d': "get_prop r ''data'' = Inr data'" "typeof data' = ''object''" "data' \<noteq> JNull"
      "\<forall>k. k \<noteq> ''data'' \<longrightarrow> get_prop r k = get_prop parsed k"
    using restored_fields [OF p(5) p(1) p(2)] by blast
  have "get_prop r ''sort'' = Inr srt" using d'(4) p(3) by simp
  moreover have "parseContinuationToken h (Token t) = Inr r"
    using assms Inr by (simp add: parseContinuationToken_def)
  ultimately show ?thesis using d' p(4) by blast
qed


theorem parseContinuationToken_single_error_kind_witness:
  "''eyJkYXRhIjp7ImlkIjo3fSwic29ydCI6WyJpZCJdfQ=='' \<noteq> []
   \<and> parseContinuationToken no_host_formats (Token ''eyJkYXRhIjp7ImlkIjo3fSwic29ydCI6WyJpZCJdfQ=='')
       = Inr (JObj [(''data'', JObj [(''id'', JNum 7)]), (''sort'', JArr [JStr ''id''])])
   \<and> ((\<exists>parsed data srt. parseContinuationToken no_host_formats (Token ''eyJkYXRhIjp7ImlkIjo3fSwic29ydCI6WyJpZCJdfQ=='') = Inr parsed
            \<and> get_prop parsed ''data'' = Inr data \<and> typeof data = ''object'' \<and> data \<noteq> JNull
            \<and> get_prop parsed ''sort'' = Inr srt \<and> Array_isArray srt)
         \<or> parseContinuationToken no_host_formats (Token ''eyJkYXRhIjp7ImlkIjo3fSwic29ydCI6WyJpZCJdfQ=='')
              = Inl (BadRequestError invalid_cursor_message))"
proof -
  have ne: "''eyJkYXRhIjp7ImlkIjo3fSwic29ydCI6WyJpZCJdfQ=='' \<noteq> []"
    by simp
  have ev: "parseContinuationToken no_host_formats (Token ''eyJkYXRhIjp7ImlkIjo3fSwic29ydCI6WyJpZCJdfQ=='')
       = Inr (JObj [(''data'', JObj [(''id'', JNum 7)]), (''sort'', JArr [JStr ''id''])])"
    by code_simp
  show ?thesis
    using ne ev parseContinuationToken_single_error_kind [OF ne, of no_host_formats] by (intro conjI)
qed

text \<open>
  C6 as stated fails: the token of \<^verbatim>\<open>{"data":{"created_at":""},"sort":[]}\<close> decodes, its
  \<^verbatim>\<open>created_at\<close> is a string, and the returned marker still holds the empty string, not a
  date: the guard \<^verbatim>\<open>parsed.data.created_at && ...\<close> skips a falsy value.
\<close>

theorem parseContinuationToken_empty_created_at:
  "JSON_parse (b64_decode ''eyJkYXRhIjp7ImNyZWF0ZWRfYXQiOiIifSwic29ydCI6W119'')
     = Inr (JObj [(''data'', JObj [(''created_at'', JStr [])]), (''sort'', JArr [])])
   \<and> parseContinuationToken no_host_formats (Token ''eyJkYXRhIjp7ImNyZWF0ZWRfYXQiOiIifSwic29ydCI6W119'')
     = Inr (JObj [(''data'', JObj [(''created_at'', JStr [])]), (''sort'', JArr [])])"
  by code_simp


text \<open>
  C6, amended. When a non-empty token decodes, the returned object is the parsed payload
  with one possible change: a \<^verbatim>\<open>created_at\<close> of \<^verbatim>\<open>data\<close> that is a non-empty string is
  replaced by the date \<^verbatim>\<open>new Date\<close> makes of it. Every other field of \<^verbatim>\<open>data\<close> and every
  other field of the payload reads as before, and \<^verbatim>\<open>data\<close> is unchanged when
  \<^verbatim>\<open>created_at\<close> is not a non-empty string.
\<close>

theorem parseContinuationToken_restores_created_at:
  assumes "parseContinuationToken h (Token t) = Inr r" "t \<noteq> []"
  shows "\<exists>parsed data data'.
           JSON_parse (b64_decode t) = Inr parsed \<and> get_prop parsed ''data'' = Inr data
         \<and> get_prop r ''data'' = Inr data'
         \<and> (\<forall>s. get_prop data ''created_at'' = Inr (JStr s) \<and> s \<noteq> []
                \<longrightarrow> get_prop data' ''created_at'' = Inr (JDate (Date_parse h s)))
         \<and> (\<forall>k. k \<noteq> ''created_at'' \<longrightarrow> get_prop data' k = get_prop data k)
         \<and> ((\<forall>s. get_prop data ''created_at'' = Inr (JStr s) \<longrightarrow> s = []) \<longrightarrow> data' = data)
         \<and> (\<forall>k. k \<noteq> ''data'' \<longrightarrow> get_prop r k = get_prop parsed k)"
proof -
  have "parse_try_block h t = Inr r"
    using assms by (simp add: parseContinuationToken_def split: sum.splits)
  then obtain parsed data where p: "JSON_parse (b64_decode t) = Inr parsed"
      "get_prop parsed ''data'' = Inr data" "typeof data = ''object''" "restore_created_at h parsed = Inr r"
    using parse_try_block_Inr by blast
  obtain data' where d': "get_prop r ''data'' = Inr data'"
      "\<forall>s. get_prop data ''created_at'' = Inr (JStr s) \<and> s \<noteq> []
                \<longrightarrow> get_prop data' ''created_at'' = Inr (JDate (Date_parse h s))"
      "\<forall>k. k \<noteq> ''created_at'' \<longrightarrow> get_prop data' k = get_prop data k"
      "(\<forall>s. get_prop data ''created_at'' = Inr (JStr s) \<longrightarrow> s = []) \<longrightarrow> data' = data"
      "\<forall>k. k \<noteq> ''data'' \<longrightarrow> get_prop r k = get_prop parsed k"
    using restored_fields [OF p(4) p(2) p(3)] by blast
  have "JSON_parse (b64_decode t) = Inr parsed \<and> get_prop parsed ''data'' = Inr data
         \<and> get_prop r ''data'' = Inr data'
         \<and> (\<forall>s. get_prop data ''created_at'' = Inr (JStr s) \<and> s \<noteq> []
                \<longrightarrow> get_prop data' ''created_at'' = Inr (JDate (Date_parse h s)))
         \<and> (\<forall>k. k \<noteq> ''created_at'' \<longrightarrow> get_prop data' k = get_prop data k)
         \<and> ((\<forall>s. get_prop data ''created_at'' = Inr (JStr s) \<longrightarrow> s = []) \<longrightarrow> data' = data)
         \<and> (\<forall>k. k \<noteq> ''data'' \<longrightarrow> get_prop r k = get_prop parsed k)"
    using p(1) p(2) d' by (intro conjI)
  then show ?thesis by (intro exI)
qed


theorem parseContinuationToken_restores_created_at_witness:
  "''eyJkYXRhIjp7ImNyZWF0ZWRfYXQiOiIxOTcwLTAxLTAxVDAwOjAwOjAwLjAwMFoiLCJpZCI6N30sInNvcnQiOlsiaWQiXX0='' \<noteq> []
   \<and> parseContinuationToken no_host_formats (Token ''eyJkYXRhIjp7ImNyZWF0ZWRfYXQiOiIxOTcwLTAxLTAxVDAwOjAwOjAwLjAwMFoiLCJpZCI6N30sInNvcnQiOlsiaWQiXX0='')
       = Inr (JObj [(''data'', JObj [(''created_at'', JDate (Some 0)), (''id'', JNum 7)]),
                    (''sort'', JArr [JStr ''id''])])
   \<and> (\<exists>parsed data data'.
           JSON_parse (b64_decode ''eyJkYXRhIjp7ImNyZWF0ZWRfYXQiOiIxOTcwLTAxLTAxVDAwOjAwOjAwLjAwMFoiLCJpZCI6N30sInNvcnQiOlsiaWQiXX0='') = Inr parsed \<and> get_prop parsed ''data'' = Inr data
         \<and> get_prop (JObj [(''data'', JObj [(''created_at'', JDate (Some 0)), (''id'', JNum 7)]),
                          (''sort'', JArr [JStr ''id''])]) ''data'' = Inr data'
         \<and> (\<forall>s. get_prop data ''created_at'' = Inr (JStr s) \<and> s \<noteq> []
                \<longrightarrow> get_prop data' ''created_at'' = Inr (JDate (Date_parse no_host_formats s)))
         \<and> (\<forall>k. k \<noteq> ''created_at'' \<longrightarrow> get_prop data' k = get_prop data k)
         \<and> ((\<forall>s. get_prop data ''created_at'' = Inr (JStr s) \<longrightarrow> s = []) \<longrightarrow> data' = data)
         \<and> (\<forall>k. k \<noteq> ''data''
                \<longrightarrow> get_prop (JObj [(''data'', JObj [(''created_at'', JDate (Some 0)), (''id'', JNum 7)]),
                                     (''sort'', JArr [JStr ''id''])]) k = get_prop parsed k))"
proof -
  have ne: "''eyJkYXRhIjp7ImNyZWF0ZWRfYXQiOiIxOTcwLTAxLTAxVDAwOjAwOjAwLjAwMFoiLCJpZCI6N30sInNvcnQiOlsiaWQiXX0='' \<noteq> []"
    by simp
  have ev: "parseContinuationToken no_host_formats (Token ''eyJkYXRhIjp7ImNyZWF0ZWRfYXQiOiIxOTcwLTAxLTAxVDAwOjAwOjAwLjAwMFoiLCJpZCI6N30sInNvcnQiOlsiaWQiXX0='')
       = Inr (JObj [(''data'', JObj [(''created_at'', JDate (Some 0)), (''id'', JNum 7)]),
                    (''sort'', JArr [JStr ''id''])])"
    by code_simp
  show ?thesis
    using ne ev parseContinuationToken_restores_created_at [OF ev ne] by (intro conjI)
qed

end
